theory Spec2Isabelle
  imports Main "HOL-Library.Sublist"
begin

section \<open>Python exceptions as values\<close>

text \<open>
  Every place where the Python source can raise is a branch of the model that returns
  \<open>Inl\<close> of the exception; normal completion is \<open>Inr\<close>.
\<close>

datatype error =
    ValueError
  | IndexError
  | AttributeError string
  | UnknownMessageError string
  | KeyError string
  | ConanException string

definition bind :: "error + 'a \<Rightarrow> ('a \<Rightarrow> error + 'b) \<Rightarrow> error + 'b" where
  "bind m f = (case m of Inl e \<Rightarrow> Inl e | Inr x \<Rightarrow> f x)"

section \<open>The standard-library calls of \<open>check_package_name.py\<close>\<close>

subsection \<open>\<open>str.lower\<close>\<close>

text \<open>
  Text is modelled as HOL strings. \<open>str.lower\<close> is the built-in of the language, with
  the case mapping of all of Unicode; like the rendering of a constant it is a
  parameter of the model, \<open>lower\<close>, from text to text, and everything proved holds for
  every such function.
\<close>

subsection \<open>\<open>fnmatch.fnmatchcase\<close>\<close>

text \<open>
  Shell-style matching of one path component against one pattern component, case
  sensitive: \<open>*\<close> matches any run of characters (also the empty one), \<open>?\<close> matches one
  character, any other character matches itself. Bracket classes are not modelled; no
  pattern of this program has one.
\<close>

fun fnmatchcase :: "string \<Rightarrow> string \<Rightarrow> bool" where
  "fnmatchcase name [] = (name = [])"
| "fnmatchcase name (p # ps) =
     (if p = CHR ''*'' then list_ex (\<lambda>k. fnmatchcase (drop k name) ps) [0 ..< Suc (length name)]
      else (case name of
              [] \<Rightarrow> False
            | c # cs \<Rightarrow> (p = CHR ''?'' \<or> p = c) \<and> fnmatchcase cs ps))"

subsection \<open>\<open>pathlib.Path\<close>, POSIX flavour\<close>

text \<open>
  \<open>Path(s)\<close> parses \<open>s\<close> into its parts: the root (\<open>/\<close>, or \<open>//\<close> for exactly two leading
  slashes) when there is one, then the components between slashes, without the empty
  ones and without \<open>.\<close>. \<open>str_split sep s\<close> is \<open>s.split(sep)\<close> for a separator of one
  character.
\<close>

fun str_split :: "char \<Rightarrow> string \<Rightarrow> string list" where
  "str_split sep [] = [[]]"
| "str_split sep (c # cs) =
     (if c = sep then [] # str_split sep cs
      else (case str_split sep cs of [] \<Rightarrow> [[c]] | w # ws \<Rightarrow> (c # w) # ws))"

definition splitroot :: "string \<Rightarrow> string \<times> string" where
  "splitroot part =
     (if part \<noteq> [] \<and> hd part = CHR ''/'' then
        (let stripped_part = dropWhile (\<lambda>c. c = CHR ''/'') part in
         if length part - length stripped_part = 2 then (''//'', stripped_part)
         else (''/'', stripped_part))
      else ([], part))"

definition parse_parts :: "string \<Rightarrow> string list" where
  "parse_parts s =
     (case splitroot s of (root, rel) \<Rightarrow>
        (if root \<noteq> [] then [root] else []) @
        filter (\<lambda>x. x \<noteq> [] \<and> x \<noteq> ''.'') (str_split CHR ''/'' rel))"

text \<open>
  \<open>PurePath.match(path_pattern)\<close>: an empty pattern raises \<open>ValueError\<close>; a relative
  pattern is matched from the right, component by component, and may be shorter than
  the path; an anchored pattern must have the same root and as many parts as the path.
\<close>

definition match :: "string \<Rightarrow> string \<Rightarrow> error + bool" where
  "match path path_pattern =
     (let root = fst (splitroot path_pattern);
          pat_parts = parse_parts path_pattern;
          parts = parse_parts path
      in if pat_parts = [] then Inl ValueError
         else if root \<noteq> [] \<and> root \<noteq> fst (splitroot path) then Inr False
         else if root \<noteq> [] \<and> length pat_parts \<noteq> length parts then Inr False
         else if root = [] \<and> length pat_parts > length parts then Inr False
         else Inr (list_all (\<lambda>(part, pat). fnmatchcase part pat)
                     (zip (rev parts) (rev (if root \<noteq> [] then tl pat_parts else pat_parts)))))"

section \<open>The syntax tree the checker reads\<close>

text \<open>
  The checker tells three kinds of child node apart: an \<open>AssignName\<close> (with its
  \<open>name\<close>), a \<open>Const\<close> (with its constant, of a type \<open>'c\<close> left open) and every other
  node. A body statement has its children in source order and its line; a class
  definition has the file of its root module, the names of its bases, its body and its
  first line.
\<close>

datatype 'c node = AssignName string | Const 'c | OtherNode

record 'c stmt =
  get_children :: "'c node list"
  lineno :: nat

record 'c classdef =
  root_file :: string
  basenames :: "string list"
  body :: "'c stmt list"
  fromlineno :: nat

text \<open>
  A reported message holds the arguments of the \<open>add_message\<close> call: the symbolic name,
  the node (the class itself, or the body statement at a position) and the line, \<open>None\<close>
  when the call passes none.
\<close>

datatype node_ref = ClassNode | BodyNode nat

record message =
  symbol :: string
  node :: node_ref
  line :: "nat option"

text \<open>The state a visit works on: the tree and the messages reported so far.\<close>

record 'c linter =
  tree :: "'c classdef"
  reported :: "message list"

section \<open>\<open>PackageName\<close>\<close>

text \<open>The message table \<open>msgs\<close>: message id, text, symbolic name, description.\<close>

definition msgs :: "(string \<times> string \<times> string \<times> string) list" where
  "msgs =
     [(''E9004'', ''Reference name should be all lowercase'', ''conan-bad-name'',
         ''Use only lower-case on the package name: `name = 'foobar'`.''),
      (''E9005'', ''Missing name attribute'', ''conan-missing-name'',
         ''The member attribute `name` must be declared: `name = 'foobar'`.''),
      (''E9007'', ''No 'name' attribute in test_package conanfile'', ''conan-test-no-name'',
         ''No 'name' attribute in test_package conanfile.'')]"

text \<open>
  \<open>add_message\<close> of the host: a symbolic name that the checker has not registered
  raises, a registered one appends the message.
\<close>

definition add_message ::
  "string \<Rightarrow> node_ref \<Rightarrow> nat option \<Rightarrow> 'c linter \<Rightarrow> error + 'c linter" where
  "add_message msgid n l st =
     (if msgid \<in> set (map (\<lambda>(code, text, symb, descr). symb) msgs)
      then Inr (st\<lparr>reported := reported st @ [\<lparr>symbol = msgid, node = n, line = l\<rparr>]\<rparr>)
      else Inl (UnknownMessageError msgid))"

text \<open>
  The line the host reports a message at: the line passed, and the node's own line when
  none was passed.
\<close>

definition message_line :: "'c classdef \<Rightarrow> message \<Rightarrow> error + nat" where
  "message_line cls m =
     (case line m of
        Some l \<Rightarrow> Inr l
      | None \<Rightarrow>
          (case node m of
             ClassNode \<Rightarrow> Inr (fromlineno cls)
           | BodyNode i \<Rightarrow>
               if i < length (body cls) then Inr (lineno (body cls ! i)) else Inl IndexError))"

subsection \<open>The reads that can raise\<close>

definition index :: "'a list \<Rightarrow> nat \<Rightarrow> error + 'a" where
  "index xs i = (if i < length xs then Inr (xs ! i) else Inl IndexError)"

fun name_of :: "'c node \<Rightarrow> error + string" where
  "name_of (AssignName n) = Inr n"
| "name_of (Const c) = Inl (AttributeError ''name'')"
| "name_of OtherNode = Inl (AttributeError ''name'')"

fun isinstance_AssignName :: "'c node \<Rightarrow> bool" where
  "isinstance_AssignName (AssignName n) = True"
| "isinstance_AssignName _ = False"

fun isinstance_Const :: "'c node \<Rightarrow> bool" where
  "isinstance_Const (Const c) = True"
| "isinstance_Const _ = False"

text \<open>
  \<open>as_string\<close> of a node is the library's rendering of the node as source text. It is
  a parameter \<open>render\<close> of the model, from constants to text. The checker calls it on
  \<open>Const\<close> nodes only; for the other nodes the model gives the name of an \<open>AssignName\<close>
  and no text for the rest, which nothing reads.
\<close>

fun as_string :: "('c \<Rightarrow> string) \<Rightarrow> 'c node \<Rightarrow> error + string" where
  "as_string render (Const c) = Inr (render c)"
| "as_string render (AssignName n) = Inr n"
| "as_string render OtherNode = Inr []"

subsection \<open>\<open>visit_classdef\<close>\<close>

text \<open>Lines 34 and 35: the local \<open>is_test\<close>; \<open>or\<close> evaluates its right side only when the left is false.\<close>

definition is_test :: "string \<Rightarrow> error + bool" where
  "is_test file =
     bind (match file ''test_package/*.py'') (\<lambda>a.
       if a then Inr True else match file ''test_v1_package/*.py'')"

text \<open>
  Lines 40 to 43: the condition on a body statement. \<open>and\<close> evaluates its operands from
  the left and stops at the first false one.
\<close>

definition is_name_assignment :: "'c node list \<Rightarrow> error + bool" where
  "is_name_assignment children =
     (if length children \<noteq> 2 then Inr False
      else bind (index children 0) (\<lambda>c0.
        if \<not> isinstance_AssignName c0 then Inr False
        else bind (name_of c0) (\<lambda>n.
          if n \<noteq> ''name'' then Inr False
          else bind (index children 1) (\<lambda>c1. Inr (isinstance_Const c1)))))"

text \<open>
  Lines 38 to 50: the loop over the body. It either returns from the method
  (\<open>Returned\<close>) or runs to its end (\<open>Exhausted\<close>). The position of the statement in the
  body is carried along to say which node a message is reported on.
\<close>

datatype flow = Returned | Exhausted

fun scan_body ::
  "(string \<Rightarrow> string) \<Rightarrow> ('c \<Rightarrow> string) \<Rightarrow> bool \<Rightarrow> nat \<Rightarrow> 'c stmt list \<Rightarrow> 'c linter \<Rightarrow>
     error + (flow \<times> 'c linter)" where
  "scan_body lower render test i [] st = Inr (Exhausted, st)"
| "scan_body lower render test i (attr # rest) st =
     (let children = get_children attr in
      bind (is_name_assignment children) (\<lambda>found.
        if found then
          if test then
            bind (add_message ''conan-test-no-name'' (BodyNode i) (Some (lineno attr)) st)
              (\<lambda>st'. Inr (Returned, st'))
          else
            bind (index children 1) (\<lambda>c1.
            bind (as_string render c1) (\<lambda>value.
              if lower value \<noteq> value then
                bind (add_message ''conan-bad-name'' (BodyNode i) (Some (lineno attr)) st)
                  (\<lambda>st'. Inr (Returned, st'))
              else Inr (Returned, st)))
        else scan_body lower render test (Suc i) rest st))"

text \<open>The method; its Python result is \<open>None\<close>, here \<open>()\<close>, next to the state it leaves.\<close>

definition visit_classdef ::
  "(string \<Rightarrow> string) \<Rightarrow> ('c \<Rightarrow> string) \<Rightarrow> 'c linter \<Rightarrow> error + (unit \<times> 'c linter)" where
  "visit_classdef lower render st =
     (let node = tree st in
      bind (is_test (root_file node)) (\<lambda>test.
        if basenames node = [''ConanFile''] then
          bind (scan_body lower render test 0 (body node) st) (\<lambda>(fl, st').
            case fl of
              Returned \<Rightarrow> Inr ((), st')
            | Exhausted \<Rightarrow>
                if \<not> test then
                  bind (add_message ''conan-missing-name'' ClassNode None st')
                    (\<lambda>st''. Inr ((), st''))
                else Inr ((), st'))
        else Inr ((), st)))"

section \<open>The rule as the specification words it\<close>

text \<open>
  A qualifying assignment: a statement with exactly two children, the first the target
  name \<open>name\<close>, the second a literal constant. \<open>name_literal\<close> gives the constant.
\<close>

definition name_literal :: "'c stmt \<Rightarrow> 'c option" where
  "name_literal attr =
     (case get_children attr of
        [AssignName n, Const c] \<Rightarrow> if n = ''name'' then Some c else None
      | _ \<Rightarrow> None)"

text \<open>The first qualifying assignment of a body, from position \<open>i\<close> on: position, statement, constant.\<close>

fun first_name_assignment :: "nat \<Rightarrow> 'c stmt list \<Rightarrow> (nat \<times> 'c stmt \<times> 'c) option" where
  "first_name_assignment i [] = None"
| "first_name_assignment i (attr # rest) =
     (case name_literal attr of
        Some c \<Rightarrow> Some (i, attr, c)
      | None \<Rightarrow> first_name_assignment (Suc i) rest)"

text \<open>The three diagnostics, with the node and the line of the call that reports them.\<close>

definition bad_name :: "nat \<Rightarrow> 'c stmt \<Rightarrow> message" where
  "bad_name i attr = \<lparr>symbol = ''conan-bad-name'', node = BodyNode i, line = Some (lineno attr)\<rparr>"

definition test_has_name :: "nat \<Rightarrow> 'c stmt \<Rightarrow> message" where
  "test_has_name i attr =
     \<lparr>symbol = ''conan-test-no-name'', node = BodyNode i, line = Some (lineno attr)\<rparr>"

definition missing_name :: message where
  "missing_name = \<lparr>symbol = ''conan-missing-name'', node = ClassNode, line = None\<rparr>"

text \<open>Step 3 of the contract: the diagnostics of a class whose only base is the required one.\<close>

definition diagnostics ::
  "(string \<Rightarrow> string) \<Rightarrow> ('c \<Rightarrow> string) \<Rightarrow> bool \<Rightarrow> (nat \<times> 'c stmt \<times> 'c) option \<Rightarrow> message list" where
  "diagnostics lower render test found =
     (case found of
        Some (i, attr, c) \<Rightarrow>
          if test then [test_has_name i attr]
          else if lower (render c) \<noteq> render c then [bad_name i attr]
          else []
      | None \<Rightarrow> if test then [] else [missing_name])"

text \<open>
  The path predicate as the contract words it, with the directory patterns
  \<open>test_package/*\<close> and \<open>test_v1_package/*\<close>.
\<close>

definition spec_is_test :: "string \<Rightarrow> error + bool" where
  "spec_is_test file =
     bind (match file ''test_package/*'') (\<lambda>a.
       if a then Inr True else match file ''test_v1_package/*'')"

text \<open>
  The four outcomes of the invariant, as conditions on the class: the class is in a
  test package; or it is not, and its first qualifying assignment renders in lower
  case, or does not, or there is none.
\<close>

definition test_package_exempt :: "'c classdef \<Rightarrow> bool" where
  "test_package_exempt cls = (is_test (root_file cls) = Inr True)"

definition correctly_named :: "(string \<Rightarrow> string) \<Rightarrow> ('c \<Rightarrow> string) \<Rightarrow> 'c classdef \<Rightarrow> bool" where
  "correctly_named lower render cls =
     (\<not> test_package_exempt cls \<and>
      (case first_name_assignment 0 (body cls) of
         Some (i, attr, c) \<Rightarrow> lower (render c) = render c
       | None \<Rightarrow> False))"

definition badly_cased :: "(string \<Rightarrow> string) \<Rightarrow> ('c \<Rightarrow> string) \<Rightarrow> 'c classdef \<Rightarrow> bool" where
  "badly_cased lower render cls =
     (\<not> test_package_exempt cls \<and>
      (case first_name_assignment 0 (body cls) of
         Some (i, attr, c) \<Rightarrow> lower (render c) \<noteq> render c
       | None \<Rightarrow> False))"

definition missing_attribute :: "'c classdef \<Rightarrow> bool" where
  "missing_attribute cls =
     (\<not> test_package_exempt cls \<and> first_name_assignment 0 (body cls) = None)"

definition exactly_one :: "bool list \<Rightarrow> bool" where
  "exactly_one bs = (length (filter (\<lambda>b. b) bs) = 1)"

section \<open>The scenarios of the specification\<close>

text \<open>
  Constants for the scenarios and their rendering by the library, on the constants used
  here: a plain string (no quote, backslash or control character in it) renders between
  single quotes, \<open>True\<close>, \<open>False\<close> and \<open>None\<close> render as these words.
\<close>

datatype const = Str string | Bool bool | NoneValue

fun repr :: "const \<Rightarrow> string" where
  "repr (Str s) = CHR 0x27 # s @ [CHR 0x27]"
| "repr (Bool b) = (if b then ''True'' else ''False'')"
| "repr NoneValue = ''None''"

text \<open>
  \<open>str.lower\<close> on the text of the scenarios, where a character stands for a code
  point below 256: the letters \<open>A\<close> to \<open>Z\<close> and the upper-case letters from \<open>U+00C0\<close> to
  \<open>U+00DE\<close> (all of that range but the sign \<open>U+00D7\<close>) go to the letter 32 places
  further, every other character stays.
\<close>

definition latin1_lower_char :: "char \<Rightarrow> char" where
  "latin1_lower_char c =
     (let n = (of_char c :: nat) in
      if (65 \<le> n \<and> n \<le> 90) \<or> (192 \<le> n \<and> n \<le> 222 \<and> n \<noteq> 215) then char_of (n + 32) else c)"

definition latin1_lower :: "string \<Rightarrow> string" where
  "latin1_lower s = map latin1_lower_char s"

text \<open>The statement \<open>name = v\<close> at a line, and a statement \<open>name = f()\<close> whose value is a call.\<close>

definition assign_name :: "const \<Rightarrow> nat \<Rightarrow> const stmt" where
  "assign_name v l = \<lparr>get_children = [AssignName ''name'', Const v], lineno = l\<rparr>"

definition assign_name_call :: "nat \<Rightarrow> const stmt" where
  "assign_name_call l = \<lparr>get_children = [AssignName ''name'', OtherNode], lineno = l\<rparr>"

definition assign_version :: "nat \<Rightarrow> const stmt" where
  "assign_version l = \<lparr>get_children = [AssignName ''version'', Const (Str ''1.0'')], lineno = l\<rparr>"

text \<open>A class at line 4 of a file, with its bases and body, before any message is reported.\<close>

definition visit_of :: "string \<Rightarrow> string list \<Rightarrow> const stmt list \<Rightarrow> const linter" where
  "visit_of path bases stmts =
     \<lparr>tree = \<lparr>root_file = path, basenames = bases, body = stmts, fromlineno = 4\<rparr>,
      reported = []\<rparr>"

definition recipe_path :: string where
  "recipe_path = ''recipes/foo/all/conanfile.py''"

definition test_path :: string where
  "test_path = ''recipes/foo/all/test_package/conanfile.py''"

section \<open>The \<open>tk\<close> recipe\<close>

subsection \<open>The recipe object and the world around it\<close>

text \<open>
  The names that the body of class \<open>TkConan\<close> binds, in source order.
\<close>

definition TkConan_attributes :: "string list" where
  "TkConan_attributes =
     [''name'', ''description'', ''license'', ''url'', ''homepage'', ''topics'', ''package_type'',
      ''settings'', ''options'', ''default_options'', ''_settings_build'', ''export_sources'',
      ''config_options'', ''configure'', ''layout'', ''requirements'', ''build_requirements'',
      ''validate'', ''source'', ''generate'', ''_get_default_build_system_subdir'',
      ''_get_configure_dir'', ''_patch_sources'', ''_build_nmake'', ''_get_autotools_args'',
      ''build'', ''package'', ''package_info'']"

text \<open>
  What the recipe reads of its configuration: settings, options, version, folders, the
  \<open>tcl\<close> dependency, and the two facts the framework derives from the compiler runtime.
\<close>

record conanfile =
  settings_os :: string
  settings_compiler :: string
  settings_build_type :: string
  options_shared :: bool
  version :: string
  source_folder :: string
  package_folder :: string
  tcl_rootpath :: string
  tcl_library :: string
  is_msvc_static_runtime :: bool
  msvc_runtime_flag :: string

text \<open>
  What the recipe does not control: which attributes the base class \<open>ConanFile\<close> and
  the framework give the object (\<open>inherited\<close>) and the value of such an attribute that
  is data (\<open>attr_value\<close>); whether a call of a function or method of the framework or of
  a build tool raises, and the text it returns (\<open>extern\<close>); the file system
  (\<open>listdir\<close>, \<open>path_exists\<close>) and \<open>os.path.join\<close> of the platform.
\<close>

record env =
  inherited :: "string \<Rightarrow> bool"
  attr_value :: "string \<Rightarrow> string"
  extern :: "string \<Rightarrow> string list \<Rightarrow> error + string"
  listdir :: "string \<Rightarrow> error + string list"
  path_exists :: "string \<Rightarrow> bool"
  path_join :: "string list \<Rightarrow> string"

text \<open>
  A step of the recipe runs on the log of the external calls made so far, and gives a
  value or an exception together with the log it leaves.
\<close>

type_synonym call = "string \<times> string list"

type_synonym 'a action = "call list \<Rightarrow> (error + 'a) \<times> call list"

definition ret :: "'a \<Rightarrow> 'a action" where
  "ret x log = (Inr x, log)"

definition raise :: "error \<Rightarrow> 'a action" where
  "raise e log = (Inl e, log)"

definition andthen :: "'a action \<Rightarrow> ('a \<Rightarrow> 'b action) \<Rightarrow> 'b action" where
  "andthen m f log = (case m log of (Inl e, log') \<Rightarrow> (Inl e, log') | (Inr x, log') \<Rightarrow> f x log')"

text \<open>An external call is logged, then raises or returns as the world has it.\<close>

definition call :: "env \<Rightarrow> string \<Rightarrow> string list \<Rightarrow> string action" where
  "call w f args log = (extern w f args, log @ [(f, args)])"

text \<open>
  \<open>self.a\<close>: the attribute is found when the class binds it or the framework gives it;
  otherwise the lookup raises \<open>AttributeError\<close>.
\<close>

definition getattr :: "env \<Rightarrow> string \<Rightarrow> unit action" where
  "getattr w a =
     (if a \<in> set TkConan_attributes \<or> inherited w a then ret () else raise (AttributeError a))"

text \<open>The calls that run a build tool: \<open>self.run\<close> (of \<open>nmake\<close>) and the \<open>Autotools\<close> helper.\<close>

definition build_tools :: "string list" where
  "build_tools = [''self.run'', ''Autotools'', ''Autotools.configure'', ''Autotools.make'']"

definition invokes_build_tool :: "call list \<Rightarrow> bool" where
  "invokes_build_tool log = list_ex (\<lambda>(f, args). f \<in> set build_tools) log"

subsection \<open>Text helpers\<close>

definition str_replace_char :: "char \<Rightarrow> string \<Rightarrow> string \<Rightarrow> string" where
  "str_replace_char old new s = concat (map (\<lambda>c. if c = old then new else [c]) s)"

fun str_join :: "string \<Rightarrow> string list \<Rightarrow> string" where
  "str_join sep [] = []"
| "str_join sep [x] = x"
| "str_join sep (x # y # ys) = x @ sep @ str_join sep (y # ys)"

definition dquote :: "string \<Rightarrow> string" where
  "dquote s = CHR 0x22 # s @ [CHR 0x22]"

definition replace_in_file :: "env \<Rightarrow> string \<Rightarrow> string \<Rightarrow> string \<Rightarrow> unit action" where
  "replace_in_file w file_path search replace =
     andthen (call w ''replace_in_file'' [file_path, search, replace]) (\<lambda>_. ret ())"

subsection \<open>The methods of \<open>TkConan\<close> on the build and package paths\<close>

definition get_default_build_system_subdir :: "env \<Rightarrow> conanfile \<Rightarrow> string action" where
  "get_default_build_system_subdir w self =
     andthen (getattr w ''settings'') (\<lambda>_.
       case map_of [(''Macos'', ''macosx''), (''FreeBSD'', ''unix''), (''Linux'', ''unix''),
                    (''Windows'', ''win'')] (settings_os self) of
         None \<Rightarrow> raise (KeyError (settings_os self))
       | Some d \<Rightarrow> ret d)"

definition get_configure_dir :: "env \<Rightarrow> conanfile \<Rightarrow> string option \<Rightarrow> string action" where
  "get_configure_dir w self build_system_subdir =
     andthen (case build_system_subdir of
                None \<Rightarrow> andthen (getattr w ''_get_default_build_system_subdir'')
                          (\<lambda>_. get_default_build_system_subdir w self)
              | Some d \<Rightarrow> ret d) (\<lambda>d.
     andthen (getattr w ''source_folder'') (\<lambda>_.
       ret (path_join w [source_folder self, d])))"

text \<open>
  \<open>self._get_configure_folder(x)\<close> and \<open>self._source_subfolder\<close>: the class binds
  neither name, so each is looked up first and, were it found, would be the
  framework's.
\<close>

definition get_configure_folder :: "env \<Rightarrow> string \<Rightarrow> string action" where
  "get_configure_folder w build_system =
     andthen (getattr w ''_get_configure_folder'') (\<lambda>_.
       call w ''self._get_configure_folder'' [build_system])"

definition source_subfolder :: "env \<Rightarrow> string action" where
  "source_subfolder w =
     andthen (getattr w ''_source_subfolder'') (\<lambda>_. ret (attr_value w ''_source_subfolder''))"

text \<open>Lines 127 to 140: the body of the loop of \<open>_patch_sources\<close>, for one build system.\<close>

definition patch_build_system :: "env \<Rightarrow> string \<Rightarrow> unit action" where
  "patch_build_system w build_system =
     andthen (get_configure_folder w build_system) (\<lambda>config_dir.
     andthen (if build_system \<noteq> ''win''
              then replace_in_file w (path_join w [config_dir, ''configure''])
                     ''(sizeof(${tcl_type_64bit})==sizeof(long))''
                     ''(sizeof(${tcl_type_64bit})!=sizeof(long))''
              else ret ()) (\<lambda>_.
     let makefile_in = path_join w [config_dir, ''Makefile.in''] in
     andthen (replace_in_file w makefile_in
                (CHR 0x0A # ''LDFLAGS'' @ [CHR 0x09]) (CHR 0x0A # ''#LDFLAGS'' @ [CHR 0x09])) (\<lambda>_.
     replace_in_file w makefile_in ''${CFLAGS}'' ''${CFLAGS} ${CPPFLAGS}'')))"

fun for_each :: "('a \<Rightarrow> unit action) \<Rightarrow> 'a list \<Rightarrow> unit action" where
  "for_each f [] = ret ()"
| "for_each f (x # xs) = andthen (f x) (\<lambda>_. for_each f xs)"

definition patch_sources :: "env \<Rightarrow> conanfile \<Rightarrow> unit action" where
  "patch_sources w self =
     andthen (call w ''apply_conandata_patches'' []) (\<lambda>_.
     andthen (for_each (patch_build_system w) [''unix'', ''win'']) (\<lambda>_.
     andthen (getattr w ''source_folder'') (\<lambda>_.
     andthen (source_subfolder w) (\<lambda>sub.
     let rules_ext_vc = path_join w [source_folder self, sub, ''win'', ''rules-ext.vc''] in
     andthen (replace_in_file w rules_ext_vc
                (CHR 0x0A # ''_RULESDIR = '')
                (CHR 0x0A # ''_RULESDIR = .'' @ CHR 0x0A # ''#_RULESDIR = '')) (\<lambda>_.
     andthen (getattr w ''source_folder'') (\<lambda>_.
     andthen (source_subfolder w) (\<lambda>sub.
     let rules_vc = path_join w [source_folder self, sub, ''win'', ''rules.vc''] in
     andthen (replace_in_file w rules_vc
                (''$(_TCLDIR)'' @ CHR 0x5C # ''generic'') (''$(_TCLDIR)'' @ CHR 0x5C # ''include'')) (\<lambda>_.
     andthen (replace_in_file w rules_vc
                (CHR 0x0A # ''TCLSTUBLIB'') (CHR 0x0A # ''#TCLSTUBLIB'')) (\<lambda>_.
     andthen (replace_in_file w rules_vc
                (CHR 0x0A # ''TCLIMPLIB'') (CHR 0x0A # ''#TCLIMPLIB'')) (\<lambda>_.
     andthen (get_configure_folder w ''win'') (\<lambda>win_dir.
     let win_makefile_in = path_join w [win_dir, ''Makefile.in''] in
     andthen (replace_in_file w win_makefile_in
                (CHR 0x0A # ''TCL_GENERIC_DIR'') (CHR 0x0A # ''#TCL_GENERIC_DIR'')) (\<lambda>_.
     andthen (source_subfolder w) (\<lambda>sub.
     let win_rules_vc = path_join w [sub, ''win'', ''rules.vc''] in
     andthen (replace_in_file w win_rules_vc
                (CHR 0x0A # ''cwarn = $(cwarn) -WX'') (CHR 0x0A # ''# cwarn = $(cwarn) -WX'')) (\<lambda>_.
     replace_in_file w win_rules_vc
       ''OPTIMIZATIONS  = $(OPTIMIZATIONS) -GL''
       ''# OPTIMIZATIONS  = $(OPTIMIZATIONS) -GL''))))))))))))))"

text \<open>
  Lines 188 to 194: the loop of \<open>_build_nmake\<close> over the listing of the \<open>tcl\<close> library
  folder, on the pair \<open>(tclimplib, tclstublib)\<close>.
\<close>

fun find_tcl_libs ::
  "env \<Rightarrow> conanfile \<Rightarrow> string \<Rightarrow> string list \<Rightarrow> string option \<times> string option \<Rightarrow>
     (string option \<times> string option) action" where
  "find_tcl_libs w self tcl_lib_path [] found = ret found"
| "find_tcl_libs w self tcl_lib_path (lib # rest) found =
     (if \<not> suffix ''.lib'' lib then find_tcl_libs w self tcl_lib_path rest found
      else
        andthen (getattr w ''version'') (\<lambda>_.
          if prefix (''tcl'' @ concat (take 2 (str_split CHR ''.'' (version self)))) lib
          then find_tcl_libs w self tcl_lib_path rest
                 (Some (path_join w [tcl_lib_path, lib]), snd found)
          else
            andthen (getattr w ''version'') (\<lambda>_.
              if prefix (''tclstub'' @ concat (take 2 (str_split CHR ''.'' (version self)))) lib
              then find_tcl_libs w self tcl_lib_path rest
                     (fst found, Some (path_join w [tcl_lib_path, lib]))
              else find_tcl_libs w self tcl_lib_path rest found)))"

definition build_nmake :: "env \<Rightarrow> conanfile \<Rightarrow> string \<Rightarrow> unit action" where
  "build_nmake w self target =
     andthen (getattr w ''options'') (\<lambda>_.
     andthen (getattr w ''settings'') (\<lambda>_.
     let opts = (if \<not> options_shared self then [''static''] else []) @
                (if settings_build_type self = ''Debug'' then [''symbols''] else []) @
                (if is_msvc_static_runtime self then [''nomsvcrt''] else [''msvcrt'']) @
                (if CHR ''d'' \<notin> set (msvc_runtime_flag self) then [''unchecked''] else []) in
     andthen (getattr w ''deps_cpp_info'') (\<lambda>_.
     let tcl_lib_path = path_join w [tcl_rootpath self, ''lib''] in
     andthen (\<lambda>log. (listdir w tcl_lib_path, log @ [(''os.listdir'', [tcl_lib_path])])) (\<lambda>libs.
     andthen (find_tcl_libs w self tcl_lib_path libs (None, None)) (\<lambda>found.
       case found of
         (Some tclimplib, Some tclstublib) \<Rightarrow>
           andthen (getattr w ''deps_cpp_info'') (\<lambda>_.
           let tcldir = str_replace_char CHR ''/'' [CHR 0x5C, CHR 0x5C] (tcl_rootpath self) in
           andthen (getattr w ''run'') (\<lambda>_.
           andthen (getattr w ''_get_configure_dir'') (\<lambda>_.
           andthen (get_configure_dir w self (Some ''win'')) (\<lambda>cfgdir.
           andthen (getattr w ''package_folder'') (\<lambda>_.
           andthen (getattr w ''deps_env_info'') (\<lambda>_.
           let command =
                 ''nmake -nologo -f '' @ dquote (cfgdir @ ''/makefile.vc'') @
                 '' INSTALLDIR='' @ dquote (package_folder self) @
                 '' OPTS='' @ str_join '','' opts @
                 '' TCLDIR='' @ dquote tcldir @
                 '' TCL_LIBRARY='' @ dquote (str_replace_char (CHR 0x5C) ''/'' (tcl_library self)) @
                 '' TCLIMPLIB='' @ dquote tclimplib @
                 '' TCLSTUBLIB='' @ dquote tclstublib @
                 '' '' @ target in
           andthen (get_configure_folder w ''win'') (\<lambda>cwd.
           andthen (call w ''self.run'' [command, cwd]) (\<lambda>_. ret ()))))))))
       | _ \<Rightarrow> raise (ConanException ''tcl dependency misses tcl and/or tclstub library''))))))"

definition get_autotools_args :: "env \<Rightarrow> conanfile \<Rightarrow> string list action" where
  "get_autotools_args w self =
     andthen (getattr w ''deps_cpp_info'') (\<lambda>_.
       ret [str_replace_char (CHR 0x5C) ''/''
              (''TCL_GENERIC_DIR='' @ path_join w [tcl_rootpath self, ''include''])])"

definition build :: "env \<Rightarrow> conanfile \<Rightarrow> unit action" where
  "build w self =
     andthen (getattr w ''_patch_sources'') (\<lambda>_.
     andthen (patch_sources w self) (\<lambda>_.
     andthen (getattr w ''settings'') (\<lambda>_.
       if settings_compiler self = ''Visual Studio'' then
         andthen (getattr w ''_build_nmake'') (\<lambda>_. build_nmake w self ''release'')
       else
         andthen (call w ''Autotools'' []) (\<lambda>_.
         andthen (getattr w ''_get_configure_dir'') (\<lambda>_.
         andthen (get_configure_dir w self None) (\<lambda>dir.
         andthen (call w ''Autotools.configure'' [dir]) (\<lambda>_.
         andthen (getattr w ''_get_autotools_args'') (\<lambda>_.
         andthen (get_autotools_args w self) (\<lambda>args.
         andthen (call w ''Autotools.make'' args) (\<lambda>_. ret ()))))))))))"

definition package :: "env \<Rightarrow> conanfile \<Rightarrow> unit action" where
  "package w self =
     andthen (getattr w ''copy'') (\<lambda>_.
     andthen (source_subfolder w) (\<lambda>sub.
     andthen (call w ''self.copy'' [''license.terms'', sub, ''licenses'']) (\<lambda>_.
     andthen (getattr w ''settings'') (\<lambda>_.
     andthen
       (if settings_compiler self = ''Visual Studio'' then
          andthen (getattr w ''_build_nmake'') (\<lambda>_. build_nmake w self ''install'')
        else
          andthen (call w ''Autotools'' []) (\<lambda>_.
          andthen (getattr w ''_get_autotools_args'') (\<lambda>_.
          andthen (get_autotools_args w self) (\<lambda>args.
          andthen (call w ''Autotools.make'' (''install'' # args)) (\<lambda>_.
          andthen (getattr w ''_get_autotools_args'') (\<lambda>_.
          andthen (get_autotools_args w self) (\<lambda>args.
          andthen (call w ''Autotools.make'' (''install-private-headers'' # args)) (\<lambda>_.
          andthen (getattr w ''package_folder'') (\<lambda>_.
          andthen (call w ''rmdir'' [path_join w [package_folder self, ''lib'', ''pkgconfig'']]) (\<lambda>_.
          andthen (getattr w ''package_folder'') (\<lambda>_.
          andthen (call w ''rmdir'' [path_join w [package_folder self, ''man'']]) (\<lambda>_.
          andthen (getattr w ''package_folder'') (\<lambda>_.
          andthen (call w ''rmdir'' [path_join w [package_folder self, ''share'']]) (\<lambda>_.
            ret ())))))))))))))) (\<lambda>_.
     andthen (getattr w ''package_folder'') (\<lambda>_.
     let tkConfigShPath = path_join w [package_folder self, ''lib'', ''tkConfig.sh''] in
     andthen
       (if path_exists w tkConfigShPath then
          andthen (getattr w ''package_folder'') (\<lambda>_.
          let pkg_path = str_replace_char (CHR 0x5C) ''/'' (path_join w [package_folder self]) in
          andthen (replace_in_file w tkConfigShPath pkg_path ''${TK_ROOT}'') (\<lambda>_.
          andthen (replace_in_file w tkConfigShPath
                     (CHR 0x0A # ''TK_BUILD_'') (CHR 0x0A # ''#TK_BUILD_'')) (\<lambda>_.
          replace_in_file w tkConfigShPath
            (CHR 0x0A # ''TK_SRC_DIR'') (CHR 0x0A # ''#TK_SRC_DIR''))))
        else ret ()) (\<lambda>_.
     andthen (call w ''fix_apple_shared_install_name'' []) (\<lambda>_. ret ()))))))))"

text \<open>
  Two worlds and two configurations to run the recipe in. In both worlds the framework
  gives the object the attributes the recipe reads (and neither \<open>_get_configure_folder\<close>
  nor \<open>_source_subfolder\<close>); in the first every external call succeeds, in the second
  applying the patches fails.
\<close>

definition framework_attributes :: "string list" where
  "framework_attributes =
     [''copy'', ''run'', ''version'', ''source_folder'', ''package_folder'', ''deps_cpp_info'',
      ''deps_env_info'', ''conan_data'', ''folders'', ''output'', ''cpp_info'', ''env_info'']"

definition posix_join :: "string list \<Rightarrow> string" where
  "posix_join ps = str_join ''/'' ps"

definition quiet_world :: env where
  "quiet_world =
     \<lparr>inherited = (\<lambda>a. a \<in> set framework_attributes),
      attr_value = (\<lambda>a. []),
      extern = (\<lambda>f args. Inr []),
      listdir = (\<lambda>d. Inr [''tcl86t.lib'', ''tclstub86.lib'', ''tclConfig.sh'']),
      path_exists = (\<lambda>p. True),
      path_join = posix_join\<rparr>"

definition failing_patch_world :: env where
  "failing_patch_world =
     quiet_world\<lparr>extern := (\<lambda>f args.
        if f = ''apply_conandata_patches'' then Inl (ConanException ''patch failed'') else Inr [])\<rparr>"

definition tk_on_linux :: conanfile where
  "tk_on_linux =
     \<lparr>settings_os = ''Linux'', settings_compiler = ''gcc'', settings_build_type = ''Release'',
      options_shared = False, version = ''8.6.10'', source_folder = ''/build/src'',
      package_folder = ''/pkg'', tcl_rootpath = ''/deps/tcl'', tcl_library = ''/deps/tcl/lib/tcl8.6'',
      is_msvc_static_runtime = False, msvc_runtime_flag = []\<rparr>"

definition tk_on_msvc :: conanfile where
  "tk_on_msvc =
     tk_on_linux\<lparr>settings_os := ''Windows'', settings_compiler := ''Visual Studio'',
                 msvc_runtime_flag := ''MD''\<rparr>"

section \<open>Properties of the path predicate\<close>

lemma bind_Inr [simp]: "bind (Inr x) f = f x" by (simp add: bind_def)
lemma bind_Inl [simp]: "bind (Inl e) f = Inl e" by (simp add: bind_def)

lemma fnmatchcase_literal:
  "CHR ''*'' \<notin> set pat \<Longrightarrow> CHR ''?'' \<notin> set pat \<Longrightarrow> fnmatchcase name pat = (name = pat)"
  by (induction pat arbitrary: name) (auto split: list.splits)

lemma fnmatchcase_star:
  "fnmatchcase name (CHR ''*'' # ps) = (\<exists>k\<le>length name. fnmatchcase (drop k name) ps)"
  by (auto simp add: list_ex_iff less_Suc_eq_le simp del: upt_Suc)

lemma fnmatchcase_star_literal:
  assumes "CHR ''*'' \<notin> set ps" "CHR ''?'' \<notin> set ps"
  shows "fnmatchcase name (CHR ''*'' # ps) = suffix ps name"
proof -
  have "fnmatchcase name (CHR ''*'' # ps) = (\<exists>k\<le>length name. drop k name = ps)"
    unfolding fnmatchcase_star using assms by (simp add: fnmatchcase_literal)
  also have "\<dots> = suffix ps name"
  proof
    assume "\<exists>k\<le>length name. drop k name = ps"
    then show "suffix ps name" using suffix_drop by blast
  next
    assume "suffix ps name"
    then obtain zs where "name = zs @ ps" by (auto simp: suffix_def)
    then have "length zs \<le> length name \<and> drop (length zs) name = ps" by simp
    then show "\<exists>k\<le>length name. drop k name = ps" by blast
  qed
  finally show ?thesis .
qed

lemma parse_test_package: "parse_parts ''test_package/*.py'' = [''test_package'', ''*.py'']"
  by code_simp
lemma parse_test_v1_package: "parse_parts ''test_v1_package/*.py'' = [''test_v1_package'', ''*.py'']"
  by code_simp
lemma root_test_package: "fst (splitroot ''test_package/*.py'') = []" by code_simp
lemma root_test_v1_package: "fst (splitroot ''test_v1_package/*.py'') = []" by code_simp

lemma rev_two_parts:
  "(2 \<le> length xs \<and> P (rev xs ! 1) \<and> Q (rev xs ! 0)) = (\<exists>ds d n. xs = ds @ [d, n] \<and> P d \<and> Q n)"
proof
  assume a: "2 \<le> length xs \<and> P (rev xs ! 1) \<and> Q (rev xs ! 0)"
  then obtain n d ys where r: "rev xs = n # d # ys"
    by (cases "rev xs"; cases "tl (rev xs)") (auto simp: Suc_le_eq dest: arg_cong [where f = length])
  then have "xs = rev ys @ [d, n]" by (simp add: rev_swap)
  with a r show "\<exists>ds d n. xs = ds @ [d, n] \<and> P d \<and> Q n" by auto
next
  assume "\<exists>ds d n. xs = ds @ [d, n] \<and> P d \<and> Q n"
  then show "2 \<le> length xs \<and> P (rev xs ! 1) \<and> Q (rev xs ! 0)" by auto
qed

lemma match_dir_glob:
  assumes "parse_parts pat = [d, g]" and "fst (splitroot pat) = []"
  shows "match path pat =
           Inr (\<exists>ds dd n. parse_parts path = ds @ [dd, n] \<and> fnmatchcase dd d \<and> fnmatchcase n g)"
proof -
  let ?xs = "parse_parts path"
  have "match path pat =
          Inr (2 \<le> length ?xs \<and> fnmatchcase (rev ?xs ! 1) d \<and> fnmatchcase (rev ?xs ! 0) g)"
  proof (cases "2 \<le> length ?xs")
    case False
    then show ?thesis using assms by (simp add: match_def Let_def)
  next
    case True
    then obtain n dd ys where r: "rev ?xs = n # dd # ys"
      by (cases "rev ?xs"; cases "tl (rev ?xs)") (auto simp: Suc_le_eq dest: arg_cong [where f = length])
    with True show ?thesis using assms by (auto simp add: match_def Let_def)
  qed
  then show ?thesis
    using rev_two_parts [of ?xs "\<lambda>x. fnmatchcase x d" "\<lambda>x. fnmatchcase x g"] by simp
qed

lemma is_test_char:
  "is_test f =
     Inr (\<exists>ds d n. parse_parts f = ds @ [d, n] \<and>
            (d = ''test_package'' \<or> d = ''test_v1_package'') \<and> suffix ''.py'' n)"
proof -
  have g: "fnmatchcase n ''*.py'' = suffix ''.py'' n" for n
    by (rule fnmatchcase_star_literal) simp_all
  have a: "fnmatchcase d ''test_package'' = (d = ''test_package'')" for d
    by (rule fnmatchcase_literal) simp_all
  have b: "fnmatchcase d ''test_v1_package'' = (d = ''test_v1_package'')" for d
    by (rule fnmatchcase_literal) simp_all
  have m1: "match f ''test_package/*.py'' =
      Inr (\<exists>ds d n. parse_parts f = ds @ [d, n] \<and> d = ''test_package'' \<and> suffix ''.py'' n)"
    using match_dir_glob [OF parse_test_package root_test_package, where path = f] by (simp only: g a)
  have m2: "match f ''test_v1_package/*.py'' =
      Inr (\<exists>ds d n. parse_parts f = ds @ [d, n] \<and> d = ''test_v1_package'' \<and> suffix ''.py'' n)"
    using match_dir_glob [OF parse_test_v1_package root_test_v1_package, where path = f] by (simp only: g b)
  show ?thesis
    unfolding is_test_def m1 m2 by (auto simp del: fnmatchcase.simps)
qed

section \<open>Properties of the checker\<close>

lemma is_test_total: "\<exists>t. is_test f = Inr t"
  by (simp add: is_test_char)

lemma registered_symbols:
  "set (map (\<lambda>(code, text, symb, descr). symb) msgs) =
     {''conan-bad-name'', ''conan-missing-name'', ''conan-test-no-name''}"
  by (simp add: msgs_def)

lemma add_message_registered:
  "msgid \<in> {''conan-bad-name'', ''conan-missing-name'', ''conan-test-no-name''} \<Longrightarrow>
   add_message msgid n l st = Inr (st\<lparr>reported := reported st @ [\<lparr>symbol = msgid, node = n, line = l\<rparr>]\<rparr>)"
  unfolding add_message_def registered_symbols by simp

lemma is_name_assignment_char:
  "is_name_assignment (get_children attr) = Inr (name_literal attr \<noteq> None)"
proof (cases "get_children attr")
  case Nil
  then show ?thesis by (simp add: is_name_assignment_def name_literal_def)
next
  case (Cons c0 cs)
  note outer = Cons
  show ?thesis
  proof (cases cs)
    case Nil
    with outer show ?thesis by (simp add: is_name_assignment_def name_literal_def split: node.splits)
  next
    case (Cons c1 ds)
    with outer show ?thesis
      by (cases c0; cases c1; cases ds)
         (simp_all add: is_name_assignment_def name_literal_def index_def)
  qed
qed

lemma name_literal_children:
  "name_literal attr = Some c \<Longrightarrow> get_children attr = [AssignName ''name'', Const c]"
  by (auto simp: name_literal_def split: list.splits node.splits if_splits)

lemma scan_body_char:
  "scan_body lower render t i stmts st =
     Inr (case first_name_assignment i stmts of
            None \<Rightarrow> (Exhausted, st)
          | Some found \<Rightarrow>
              (Returned, st\<lparr>reported := reported st @ diagnostics lower render t (Some found)\<rparr>))"
proof (induction stmts arbitrary: i)
  case Nil
  show ?case by simp
next
  case (Cons attr rest)
  show ?case
  proof (cases "name_literal attr")
    case None
    then show ?thesis using Cons.IH [of "Suc i"]
      by (simp add: is_name_assignment_char Let_def)
  next
    case (Some c)
    have ch: "get_children attr = [AssignName ''name'', Const c]"
      using Some by (rule name_literal_children)
    have nm: "is_name_assignment (get_children attr) = Inr True"
      using Some by (simp add: is_name_assignment_char)
    show ?thesis
      using Some
      by (simp add: nm [unfolded ch] Let_def ch index_def diagnostics_def add_message_registered
            bad_name_def test_has_name_def)
  qed
qed

lemma visit_classdef_char:
  assumes "basenames (tree st) = [''ConanFile'']" and "is_test (root_file (tree st)) = Inr t"
  shows "visit_classdef lower render st =
           Inr ((), st\<lparr>reported := reported st @
                        diagnostics lower render t (first_name_assignment 0 (body (tree st)))\<rparr>)"
proof (cases "first_name_assignment 0 (body (tree st))")
  case None
  then show ?thesis using assms
    by (simp add: visit_classdef_def Let_def scan_body_char diagnostics_def
          add_message_registered missing_name_def)
next
  case (Some found)
  then show ?thesis using assms
    by (simp add: visit_classdef_def Let_def scan_body_char)
qed


lemma first_name_assignment_skip:
  assumes "\<forall>s\<in>set pre. name_literal s = None" and "name_literal attr = Some c"
  shows "first_name_assignment i (pre @ attr # post) = Some (i + length pre, attr, c)"
  using assms by (induction pre arbitrary: i) simp_all

lemma first_name_assignment_none:
  "(first_name_assignment i stmts = None) = (\<forall>s\<in>set stmts. name_literal s = None)"
  by (induction stmts arbitrary: i) (auto split: option.splits)

lemma length_diagnostics: "length (diagnostics lower render t found) \<le> 1"
  by (simp add: diagnostics_def split: option.splits)

lemma is_test_recipe_path: "is_test recipe_path = Inr False" by code_simp
lemma is_test_test_path: "is_test test_path = Inr True" by code_simp

lemma exactly_one_four:
  "exactly_one [a, b, c, d] =
     ((a \<and> \<not> b \<and> \<not> c \<and> \<not> d) \<or> (\<not> a \<and> b \<and> \<not> c \<and> \<not> d) \<or>
      (\<not> a \<and> \<not> b \<and> c \<and> \<not> d) \<or> (\<not> a \<and> \<not> b \<and> \<not> c \<and> d))"
  by (auto simp: exactly_one_def)

lemma visit_classdef_found:
  assumes "basenames (tree st) = [''ConanFile'']"
    and "is_test (root_file (tree st)) = Inr t"
    and "body (tree st) = pre @ attr # post"
    and "\<forall>s\<in>set pre. name_literal s = None"
    and "name_literal attr = Some c"
  shows "visit_classdef lower render st =
           Inr ((), st\<lparr>reported := reported st @
                        diagnostics lower render t (Some (length pre, attr, c))\<rparr>)"
  using visit_classdef_char [OF assms(1,2), where lower = lower and render = render]
    first_name_assignment_skip [OF assms(4,5), of 0 post] assms(3)
  by simp

lemma visit_classdef_not_found:
  assumes "basenames (tree st) = [''ConanFile'']"
    and "is_test (root_file (tree st)) = Inr t"
    and "\<forall>s\<in>set (body (tree st)). name_literal s = None"
  shows "visit_classdef lower render st =
           Inr ((), st\<lparr>reported := reported st @ diagnostics lower render t None\<rparr>)"
  using visit_classdef_char [OF assms(1,2), where lower = lower and render = render]
    first_name_assignment_none [of 0 "body (tree st)"] assms(3)
  by simp

lemma assign_name_literal [simp]: "name_literal (assign_name v l) = Some v"
  by (simp add: assign_name_def name_literal_def)

lemma assign_name_call_literal [simp]: "name_literal (assign_name_call l) = None"
  by (simp add: assign_name_call_def name_literal_def)

lemma assign_version_literal [simp]: "name_literal (assign_version l) = None"
  by (simp add: assign_version_def name_literal_def)

lemma visit_of_simps [simp]:
  "root_file (tree (visit_of path bases stmts)) = path"
  "basenames (tree (visit_of path bases stmts)) = bases"
  "body (tree (visit_of path bases stmts)) = stmts"
  "fromlineno (tree (visit_of path bases stmts)) = 4"
  "reported (visit_of path bases stmts) = []"
  by (simp_all add: visit_of_def)

lemma lower_examples:
  "latin1_lower (repr (Str ''FooBar'')) \<noteq> repr (Str ''FooBar'')"
  "latin1_lower (repr (Str ''foo'')) = repr (Str ''foo'')"
  "latin1_lower (repr (Bool True)) \<noteq> repr (Bool True)"
  "latin1_lower (repr (Str (CHR 0xD1 # ''and'' @ [CHR 0xFA]))) \<noteq> repr (Str (CHR 0xD1 # ''and'' @ [CHR 0xFA]))"
  by code_simp+

section \<open>Properties of the recipe\<close>

lemma andthen_ret [simp]: "andthen (ret x) f = f x"
  by (rule ext) (simp add: andthen_def ret_def)

lemma andthen_raise [simp]: "andthen (raise e) f = raise e"
  by (rule ext) (simp add: andthen_def raise_def)

lemma getattr_bound: "a \<in> set TkConan_attributes \<Longrightarrow> getattr w a = ret ()"
  by (simp add: getattr_def)

lemma getattr_unbound:
  "a \<notin> set TkConan_attributes \<Longrightarrow> \<not> inherited w a \<Longrightarrow> getattr w a = raise (AttributeError a)"
  by (simp add: getattr_def)

lemma unbound_names:
  "''_get_configure_folder'' \<notin> set TkConan_attributes"
  "''_source_subfolder'' \<notin> set TkConan_attributes"
  "''copy'' \<notin> set TkConan_attributes"
  "''_get_configure_dir'' \<in> set TkConan_attributes"
  "''_patch_sources'' \<in> set TkConan_attributes"
  by (simp_all add: TkConan_attributes_def)

lemma get_configure_folder_raises:
  "\<not> inherited w ''_get_configure_folder'' \<Longrightarrow>
   get_configure_folder w build_system = raise (AttributeError ''_get_configure_folder'')"
  by (simp add: get_configure_folder_def getattr_unbound unbound_names)

lemma source_subfolder_raises:
  "\<not> inherited w ''_source_subfolder'' \<Longrightarrow>
   source_subfolder w = raise (AttributeError ''_source_subfolder'')"
  by (simp add: source_subfolder_def getattr_unbound unbound_names)

lemma patch_sources_raises:
  assumes "\<not> inherited w ''_get_configure_folder''"
  shows "patch_sources w self log =
           (case extern w ''apply_conandata_patches'' [] of
              Inl e \<Rightarrow> Inl e
            | Inr r \<Rightarrow> Inl (AttributeError ''_get_configure_folder''),
            log @ [(''apply_conandata_patches'', [])])"
  by (simp add: patch_sources_def patch_build_system_def get_configure_folder_raises [OF assms]
        andthen_def call_def raise_def split: sum.splits)

lemma build_raises:
  assumes "\<not> inherited w ''_get_configure_folder''"
  shows "build w self log =
           (case extern w ''apply_conandata_patches'' [] of
              Inl e \<Rightarrow> Inl e
            | Inr r \<Rightarrow> Inl (AttributeError ''_get_configure_folder''),
            log @ [(''apply_conandata_patches'', [])])"
  unfolding build_def getattr_bound [OF unbound_names(5)] andthen_ret
  by (simp add: andthen_def [of "patch_sources w self"] patch_sources_raises [OF assms] split: sum.splits)

lemma package_raises:
  assumes "\<not> inherited w ''_source_subfolder''"
  shows "package w self log =
           (Inl (AttributeError (if inherited w ''copy'' then ''_source_subfolder'' else ''copy'')), log)"
proof (cases "inherited w ''copy''")
  case True
  then have "getattr w ''copy'' = ret ()" by (simp add: getattr_def)
  then show ?thesis using True
    by (simp add: package_def source_subfolder_raises [OF assms] raise_def)
next
  case False
  then have "getattr w ''copy'' = raise (AttributeError ''copy'')"
    by (simp add: getattr_unbound unbound_names)
  then show ?thesis using False
    by (simp add: package_def raise_def)
qed

section \<open>The claims\<close>

text \<open>
  C5. A visited class whose base names are not exactly the one name \<open>ConanFile\<close> (none,
  another name, or more than one) gets no diagnostic and nothing else is done, whatever
  its body and its file path are: the visit returns \<open>None\<close> and leaves the state as it
  was.
\<close>

theorem other_bases_are_skipped:
  assumes "basenames (tree st) \<noteq> [''ConanFile'']"
  shows "visit_classdef lower render st = Inr ((), st)"
proof -
  obtain t where "is_test (root_file (tree st)) = Inr t"
    using is_test_total by blast
  then have "visit_classdef lower render st =
               (if basenames (tree st) = [''ConanFile'']
                then bind (scan_body lower render t 0 (body (tree st)) st) (\<lambda>(fl, st').
                       case fl of
                         Returned \<Rightarrow> Inr ((), st')
                       | Exhausted \<Rightarrow>
                           if \<not> t then
                             bind (add_message ''conan-missing-name'' ClassNode None st')
                               (\<lambda>st''. Inr ((), st''))
                           else Inr ((), st'))
                else Inr ((), st))"
    by (simp add: visit_classdef_def Let_def)
  with assms show ?thesis by simp
qed

theorem other_bases_are_skipped_witness:
  "basenames (tree (visit_of recipe_path [''ConanFile'', ''Other''] [assign_name (Str ''FooBar'') 5]))
     \<noteq> [''ConanFile''] \<and>
   visit_classdef latin1_lower repr (visit_of recipe_path [''ConanFile'', ''Other''] [assign_name (Str ''FooBar'') 5])
     = Inr ((), visit_of recipe_path [''ConanFile'', ''Other''] [assign_name (Str ''FooBar'') 5]) \<and>
   visit_classdef latin1_lower repr (visit_of test_path [] [assign_name (Str ''foo'') 5])
     = Inr ((), visit_of test_path [] [assign_name (Str ''foo'') 5]) \<and>
   visit_classdef latin1_lower repr (visit_of recipe_path [''object''] [])
     = Inr ((), visit_of recipe_path [''object''] [])"
  using other_bases_are_skipped [of "visit_of recipe_path [''ConanFile'', ''Other''] [assign_name (Str ''FooBar'') 5]" latin1_lower repr]
    other_bases_are_skipped [of "visit_of test_path [] [assign_name (Str ''foo'') 5]" latin1_lower repr]
    other_bases_are_skipped [of "visit_of recipe_path [''object''] []" latin1_lower repr]
  by (simp add: visit_of_def)

text \<open>
  C1. A visited class whose base names are exactly \<open>ConanFile\<close> falls in exactly one
  of the four outcomes: correctly named, badly cased, missing attribute (the three for a
  class outside a test package, by its first qualifying assignment) or test-package
  exempt (a class in a test package). In every one of them the visit returns \<open>None\<close>,
  leaves the tree as it was and reports at most one message: none for a correctly named
  class, \<open>conan-bad-name\<close> for a badly cased one, \<open>conan-missing-name\<close> for a missing
  attribute, and in a test package \<open>conan-test-no-name\<close> when the attribute is there
  and none when it is not. Badly cased means that \<open>lower\<close> changes the rendering of the
  constant, for whatever function \<open>lower\<close> and rendering the library has.
\<close>

theorem visit_classdef_classifies:
  assumes "basenames (tree st) = [''ConanFile'']"
  shows "exactly_one [correctly_named lower render (tree st), badly_cased lower render (tree st),
                      missing_attribute (tree st), test_package_exempt (tree st)] \<and>
         (\<exists>st' new. visit_classdef lower render st = Inr ((), st') \<and> tree st' = tree st \<and>
            reported st' = reported st @ new \<and> length new \<le> 1 \<and>
            map symbol new =
              (if correctly_named lower render (tree st) then []
               else if badly_cased lower render (tree st) then [''conan-bad-name'']
               else if missing_attribute (tree st) then [''conan-missing-name'']
               else if first_name_assignment 0 (body (tree st)) = None then []
               else [''conan-test-no-name'']))"
proof -
  obtain t where t: "is_test (root_file (tree st)) = Inr t"
    using is_test_total by blast
  let ?found = "first_name_assignment 0 (body (tree st))"
  let ?new = "diagnostics lower render t ?found"
  have one: "exactly_one [correctly_named lower render (tree st), badly_cased lower render (tree st),
                      missing_attribute (tree st), test_package_exempt (tree st)]"
    unfolding exactly_one_four
    by (cases ?found)
       (auto simp: correctly_named_def badly_cased_def missing_attribute_def)
  have v: "visit_classdef lower render st = Inr ((), st\<lparr>reported := reported st @ ?new\<rparr>)"
    using assms t by (rule visit_classdef_char)
  have sym: "map symbol ?new =
              (if correctly_named lower render (tree st) then []
               else if badly_cased lower render (tree st) then [''conan-bad-name'']
               else if missing_attribute (tree st) then [''conan-missing-name'']
               else if ?found = None then []
               else [''conan-test-no-name''])"
    using t
    by (cases ?found)
       (auto simp: correctly_named_def badly_cased_def missing_attribute_def
          test_package_exempt_def diagnostics_def bad_name_def test_has_name_def missing_name_def)
  have "tree (st\<lparr>reported := reported st @ ?new\<rparr>) = tree st \<and>
        reported (st\<lparr>reported := reported st @ ?new\<rparr>) = reported st @ ?new \<and>
        length ?new \<le> 1"
    using length_diagnostics [of lower render t ?found] by simp
  with one v sym show ?thesis by blast
qed

theorem visit_classdef_classifies_witness:
  "basenames (tree (visit_of recipe_path [''ConanFile''] [assign_version 5, assign_name (Str ''FooBar'') 6]))
     = [''ConanFile''] \<and>
   badly_cased latin1_lower repr (tree (visit_of recipe_path [''ConanFile''] [assign_version 5, assign_name (Str ''FooBar'') 6])) \<and>
   \<not> correctly_named latin1_lower repr (tree (visit_of recipe_path [''ConanFile''] [assign_version 5, assign_name (Str ''FooBar'') 6])) \<and>
   \<not> missing_attribute (tree (visit_of recipe_path [''ConanFile''] [assign_version 5, assign_name (Str ''FooBar'') 6])) \<and>
   \<not> test_package_exempt (tree (visit_of recipe_path [''ConanFile''] [assign_version 5, assign_name (Str ''FooBar'') 6])) \<and>
   (\<exists>st' new.
      visit_classdef latin1_lower repr (visit_of recipe_path [''ConanFile''] [assign_version 5, assign_name (Str ''FooBar'') 6])
        = Inr ((), st') \<and>
      tree st' = tree (visit_of recipe_path [''ConanFile''] [assign_version 5, assign_name (Str ''FooBar'') 6]) \<and>
      reported st' = new \<and> length new \<le> 1 \<and> map symbol new = [''conan-bad-name''])"
proof -
  let ?st = "visit_of recipe_path [''ConanFile''] [assign_version 5, assign_name (Str ''FooBar'') 6]"
  have b: "basenames (tree ?st) = [''ConanFile'']" by (simp add: visit_of_def)
  have f: "first_name_assignment 0 (body (tree ?st)) = Some (1, assign_name (Str ''FooBar'') 6, Str ''FooBar'')"
    by (simp add: visit_of_def assign_version_def assign_name_def name_literal_def)
  have l: "latin1_lower (repr (Str ''FooBar'')) \<noteq> repr (Str ''FooBar'')" by code_simp
  have r: "root_file (tree ?st) = recipe_path" by (simp add: visit_of_def)
  have bc: "badly_cased latin1_lower repr (tree ?st)"
    by (simp add: badly_cased_def test_package_exempt_def f l r is_test_recipe_path del: repr.simps)
  have cn: "\<not> correctly_named latin1_lower repr (tree ?st)"
    by (simp add: correctly_named_def f l del: repr.simps)
  have ma: "\<not> missing_attribute (tree ?st)"
    by (simp add: missing_attribute_def f)
  have te: "\<not> test_package_exempt (tree ?st)"
    by (simp add: test_package_exempt_def r is_test_recipe_path)
  have e: "reported ?st = []" by (simp add: visit_of_def)
  show ?thesis
    using visit_classdef_classifies [OF b, of latin1_lower repr] bc cn ma te by (simp add: b e)
qed

text \<open>
  C2. For a class whose base names are exactly \<open>ConanFile\<close>, outside a test package,
  whose first qualifying assignment (target \<open>name\<close>, literal constant \<open>c\<close>) is the
  statement \<open>attr\<close> after the non-qualifying statements \<open>pre\<close>: the visit reports
  exactly one \<open>conan-bad-name\<close>, on that statement and at its line, if the lower-case
  form of the rendering of \<open>c\<close> differs from the rendering, and reports nothing if it
  does not. The comparison is on the rendered text for any kind of constant, any
  rendering and any function \<open>lower\<close>, so for the one of the language too.
\<close>

theorem bad_name_iff_lower_differs:
  assumes "basenames (tree st) = [''ConanFile'']"
    and "is_test (root_file (tree st)) = Inr False"
    and "body (tree st) = pre @ attr # post"
    and "\<forall>s\<in>set pre. name_literal s = None"
    and "name_literal attr = Some c"
  shows "visit_classdef lower render st =
           Inr ((), st\<lparr>reported := reported st @
                        (if lower (render c) \<noteq> render c
                         then [\<lparr>symbol = ''conan-bad-name'', node = BodyNode (length pre),
                                 line = Some (lineno attr)\<rparr>]
                         else [])\<rparr>) \<and>
         message_line (tree st)
           \<lparr>symbol = ''conan-bad-name'', node = BodyNode (length pre), line = Some (lineno attr)\<rparr>
           = Inr (lineno attr)"
  using visit_classdef_found [OF assms, where lower = lower and render = render]
  by (simp add: diagnostics_def bad_name_def message_line_def)

theorem bad_name_iff_lower_differs_witness:
  "visit_classdef latin1_lower repr (visit_of recipe_path [''ConanFile''] [assign_version 5, assign_name (Str ''FooBar'') 6])
     = Inr ((), (visit_of recipe_path [''ConanFile''] [assign_version 5, assign_name (Str ''FooBar'') 6])
                  \<lparr>reported := [\<lparr>symbol = ''conan-bad-name'', node = BodyNode 1, line = Some 6\<rparr>]\<rparr>) \<and>
   visit_classdef latin1_lower repr (visit_of recipe_path [''ConanFile''] [assign_name (Str ''foo'') 5])
     = Inr ((), visit_of recipe_path [''ConanFile''] [assign_name (Str ''foo'') 5]) \<and>
   visit_classdef latin1_lower repr (visit_of recipe_path [''ConanFile''] [assign_name (Bool True) 5])
     = Inr ((), (visit_of recipe_path [''ConanFile''] [assign_name (Bool True) 5])
                  \<lparr>reported := [\<lparr>symbol = ''conan-bad-name'', node = BodyNode 0, line = Some 5\<rparr>]\<rparr>) \<and>
   visit_classdef latin1_lower repr
       (visit_of recipe_path [''ConanFile''] [assign_name (Str (CHR 0xD1 # ''and'' @ [CHR 0xFA])) 5])
     = Inr ((), (visit_of recipe_path [''ConanFile''] [assign_name (Str (CHR 0xD1 # ''and'' @ [CHR 0xFA])) 5])
                  \<lparr>reported := [\<lparr>symbol = ''conan-bad-name'', node = BodyNode 0, line = Some 5\<rparr>]\<rparr>)"
proof -
  have n: "lineno (assign_name v l) = l" for v l by (simp add: assign_name_def)
  have 1: "visit_classdef latin1_lower repr (visit_of recipe_path [''ConanFile''] [assign_version 5, assign_name (Str ''FooBar'') 6])
     = Inr ((), (visit_of recipe_path [''ConanFile''] [assign_version 5, assign_name (Str ''FooBar'') 6])
                  \<lparr>reported := [\<lparr>symbol = ''conan-bad-name'', node = BodyNode 1, line = Some 6\<rparr>]\<rparr>)"
    using bad_name_iff_lower_differs [of "visit_of recipe_path [''ConanFile''] [assign_version 5, assign_name (Str ''FooBar'') 6]"
        "[assign_version 5]" "assign_name (Str ''FooBar'') 6" "[]" "Str ''FooBar''" latin1_lower repr]
      lower_examples(1)
    by (simp add: is_test_recipe_path n del: repr.simps)
  have 2: "visit_classdef latin1_lower repr (visit_of recipe_path [''ConanFile''] [assign_name (Str ''foo'') 5])
     = Inr ((), visit_of recipe_path [''ConanFile''] [assign_name (Str ''foo'') 5])"
    using bad_name_iff_lower_differs [of "visit_of recipe_path [''ConanFile''] [assign_name (Str ''foo'') 5]"
        "[]" "assign_name (Str ''foo'') 5" "[]" "Str ''foo''" latin1_lower repr]
      lower_examples(2)
    by (simp add: is_test_recipe_path n visit_of_def del: repr.simps)
  have 3: "visit_classdef latin1_lower repr (visit_of recipe_path [''ConanFile''] [assign_name (Bool True) 5])
     = Inr ((), (visit_of recipe_path [''ConanFile''] [assign_name (Bool True) 5])
                  \<lparr>reported := [\<lparr>symbol = ''conan-bad-name'', node = BodyNode 0, line = Some 5\<rparr>]\<rparr>)"
    using bad_name_iff_lower_differs [of "visit_of recipe_path [''ConanFile''] [assign_name (Bool True) 5]"
        "[]" "assign_name (Bool True) 5" "[]" "Bool True" latin1_lower repr]
      lower_examples(3)
    by (simp add: is_test_recipe_path n del: repr.simps)
  have 4: "visit_classdef latin1_lower repr
       (visit_of recipe_path [''ConanFile''] [assign_name (Str (CHR 0xD1 # ''and'' @ [CHR 0xFA])) 5])
     = Inr ((), (visit_of recipe_path [''ConanFile''] [assign_name (Str (CHR 0xD1 # ''and'' @ [CHR 0xFA])) 5])
                  \<lparr>reported := [\<lparr>symbol = ''conan-bad-name'', node = BodyNode 0, line = Some 5\<rparr>]\<rparr>)"
    using bad_name_iff_lower_differs [of
        "visit_of recipe_path [''ConanFile''] [assign_name (Str (CHR 0xD1 # ''and'' @ [CHR 0xFA])) 5]"
        "[]" "assign_name (Str (CHR 0xD1 # ''and'' @ [CHR 0xFA])) 5" "[]"
        "Str (CHR 0xD1 # ''and'' @ [CHR 0xFA])" latin1_lower repr]
      lower_examples(4)
    by (simp add: is_test_recipe_path n del: repr.simps)
  from 1 2 3 4 show ?thesis by blast
qed

text \<open>
  C3. For a class whose base names are exactly \<open>ConanFile\<close>, outside a test package,
  whose body has no qualifying assignment: the visit reports exactly one
  \<open>conan-missing-name\<close>, on the class node itself and with no line passed, so that it
  is reported at the class node's own line.
\<close>

theorem missing_name_on_class_node:
  assumes "basenames (tree st) = [''ConanFile'']"
    and "is_test (root_file (tree st)) = Inr False"
    and "\<forall>s\<in>set (body (tree st)). name_literal s = None"
  shows "visit_classdef lower render st =
           Inr ((), st\<lparr>reported := reported st @
                        [\<lparr>symbol = ''conan-missing-name'', node = ClassNode, line = None\<rparr>]\<rparr>) \<and>
         message_line (tree st) \<lparr>symbol = ''conan-missing-name'', node = ClassNode, line = None\<rparr>
           = Inr (fromlineno (tree st))"
  using visit_classdef_not_found [OF assms, where lower = lower and render = render]
  by (simp add: diagnostics_def missing_name_def message_line_def)

theorem missing_name_on_class_node_witness:
  "visit_classdef latin1_lower repr (visit_of recipe_path [''ConanFile''] [])
     = Inr ((), (visit_of recipe_path [''ConanFile''] [])
                  \<lparr>reported := [\<lparr>symbol = ''conan-missing-name'', node = ClassNode, line = None\<rparr>]\<rparr>) \<and>
   message_line (tree (visit_of recipe_path [''ConanFile''] []))
       \<lparr>symbol = ''conan-missing-name'', node = ClassNode, line = None\<rparr> = Inr 4 \<and>
   visit_classdef latin1_lower repr (visit_of recipe_path [''ConanFile''] [assign_version 5, assign_name_call 6])
     = Inr ((), (visit_of recipe_path [''ConanFile''] [assign_version 5, assign_name_call 6])
                  \<lparr>reported := [\<lparr>symbol = ''conan-missing-name'', node = ClassNode, line = None\<rparr>]\<rparr>)"
  using missing_name_on_class_node [of "visit_of recipe_path [''ConanFile''] []" latin1_lower repr]
    missing_name_on_class_node [of "visit_of recipe_path [''ConanFile''] [assign_version 5, assign_name_call 6]" latin1_lower repr]
  by (simp add: is_test_recipe_path)

text \<open>
  C4. For a class whose base names are exactly \<open>ConanFile\<close>, in a test package: when
  the body has a first qualifying assignment, the visit reports exactly one
  \<open>conan-test-no-name\<close>, whatever the statements after it and whatever the rendering
  of its constant are; when the body has none, the visit reports nothing.
\<close>

theorem test_package_name_is_the_violation:
  assumes "basenames (tree st) = [''ConanFile'']"
    and "is_test (root_file (tree st)) = Inr True"
  shows "(body (tree st) = pre @ attr # post \<and> (\<forall>s\<in>set pre. name_literal s = None) \<and>
          name_literal attr = Some c \<longrightarrow>
            visit_classdef lower render st =
              Inr ((), st\<lparr>reported := reported st @
                           [\<lparr>symbol = ''conan-test-no-name'', node = BodyNode (length pre),
                              line = Some (lineno attr)\<rparr>]\<rparr>)) \<and>
         ((\<forall>s\<in>set (body (tree st)). name_literal s = None) \<longrightarrow>
            visit_classdef lower render st = Inr ((), st))"
proof (intro conjI impI)
  assume "body (tree st) = pre @ attr # post \<and> (\<forall>s\<in>set pre. name_literal s = None) \<and>
          name_literal attr = Some c"
  then show "visit_classdef lower render st =
              Inr ((), st\<lparr>reported := reported st @
                           [\<lparr>symbol = ''conan-test-no-name'', node = BodyNode (length pre),
                              line = Some (lineno attr)\<rparr>]\<rparr>)"
    using visit_classdef_found [OF assms, where pre = pre and attr = attr and post = post and c = c and lower = lower and render = render]
    by (simp add: diagnostics_def test_has_name_def)
next
  assume "\<forall>s\<in>set (body (tree st)). name_literal s = None"
  then show "visit_classdef lower render st = Inr ((), st)"
    using visit_classdef_not_found [OF assms, where lower = lower and render = render]
    by (simp add: diagnostics_def)
qed

theorem test_package_name_is_the_violation_witness:
  "visit_classdef latin1_lower repr (visit_of test_path [''ConanFile''] [assign_version 5, assign_name (Str ''FooBar'') 6, assign_name (Str ''foo'') 7])
     = Inr ((), (visit_of test_path [''ConanFile''] [assign_version 5, assign_name (Str ''FooBar'') 6, assign_name (Str ''foo'') 7])
                  \<lparr>reported := [\<lparr>symbol = ''conan-test-no-name'', node = BodyNode 1, line = Some 6\<rparr>]\<rparr>) \<and>
   visit_classdef latin1_lower repr (visit_of test_path [''ConanFile''] [assign_name (Str ''foo'') 5])
     = Inr ((), (visit_of test_path [''ConanFile''] [assign_name (Str ''foo'') 5])
                  \<lparr>reported := [\<lparr>symbol = ''conan-test-no-name'', node = BodyNode 0, line = Some 5\<rparr>]\<rparr>) \<and>
   visit_classdef latin1_lower repr (visit_of test_path [''ConanFile''] [assign_version 5])
     = Inr ((), visit_of test_path [''ConanFile''] [assign_version 5])"
proof -
  have n: "lineno (assign_name v l) = l" for v l by (simp add: assign_name_def)
  show ?thesis
    using test_package_name_is_the_violation [of
        "visit_of test_path [''ConanFile''] [assign_version 5, assign_name (Str ''FooBar'') 6, assign_name (Str ''foo'') 7]"
        "[assign_version 5]" "assign_name (Str ''FooBar'') 6" "[assign_name (Str ''foo'') 7]" "Str ''FooBar''" latin1_lower repr]
      test_package_name_is_the_violation [of
        "visit_of test_path [''ConanFile''] [assign_name (Str ''foo'') 5]"
        "[]" "assign_name (Str ''foo'') 5" "[]" "Str ''foo''" latin1_lower repr]
      test_package_name_is_the_violation [of
        "visit_of test_path [''ConanFile''] [assign_version 5]"
        "[]" "assign_version 5" "[]" "Str ''foo''" latin1_lower repr]
    by (simp add: is_test_test_path n)
qed

text \<open>
  C6, as amended. \<open>is_test\<close> is a function of the path text alone and never raises. It
  is true exactly when the last part of the path ends in \<open>.py\<close> and the part before it
  is \<open>test_package\<close> or \<open>test_v1_package\<close>: the patterns of the code are
  \<open>test_package/*.py\<close> and \<open>test_v1_package/*.py\<close>.
\<close>

theorem is_test_needs_py_suffix:
  "is_test f =
     Inr (\<exists>ds d stem. parse_parts f = ds @ [d, stem @ ''.py''] \<and>
            (d = ''test_package'' \<or> d = ''test_v1_package''))"
proof -
  have "(\<exists>ds d n. parse_parts f = ds @ [d, n] \<and>
            (d = ''test_package'' \<or> d = ''test_v1_package'') \<and> suffix ''.py'' n) =
        (\<exists>ds d stem. parse_parts f = ds @ [d, stem @ ''.py''] \<and>
            (d = ''test_package'' \<or> d = ''test_v1_package''))"
    unfolding suffix_def by blast
  then show ?thesis by (simp only: is_test_char)
qed

theorem is_test_needs_py_suffix_witness:
  "is_test ''recipes/foo/all/test_package/conanfile.py'' = Inr True \<and>
   is_test ''recipes/foo/all/test_v1_package/conanfile.py'' = Inr True \<and>
   is_test ''/abs/test_package/.py'' = Inr True \<and>
   is_test ''recipes/foo/all/conanfile.py'' = Inr False \<and>
   is_test ''recipes/test_package/all/conanfile.py'' = Inr False \<and>
   parse_parts ''recipes/foo/all/test_package/conanfile.py''
     = [''recipes'', ''foo'', ''all''] @ [''test_package'', ''conanfile'' @ ''.py'']"
proof -
  have p: "parse_parts ''recipes/foo/all/test_package/conanfile.py''
     = [''recipes'', ''foo'', ''all''] @ [''test_package'', ''conanfile'' @ ''.py'']"
    by code_simp
  then have "\<exists>ds d stem. parse_parts ''recipes/foo/all/test_package/conanfile.py'' = ds @ [d, stem @ ''.py''] \<and>
            (d = ''test_package'' \<or> d = ''test_v1_package'')"
    by blast
  then have 1: "is_test ''recipes/foo/all/test_package/conanfile.py'' = Inr True"
    using is_test_needs_py_suffix [of "''recipes/foo/all/test_package/conanfile.py''"]
    by (simp only:)
  have 2: "is_test ''recipes/foo/all/test_v1_package/conanfile.py'' = Inr True"
     "is_test ''/abs/test_package/.py'' = Inr True"
     "is_test ''recipes/foo/all/conanfile.py'' = Inr False"
     "is_test ''recipes/test_package/all/conanfile.py'' = Inr False"
    by code_simp+
  from 1 2 p show ?thesis by blast
qed

text \<open>
  C6 as stated fails: a file in a \<open>test_package\<close> directory whose name does not end in
  \<open>.py\<close> matches the directory pattern \<open>test_package/*\<close>, and \<open>is_test\<close> is false on it.
\<close>

theorem is_test_directory_pattern_counterexample:
  "parse_parts ''recipes/foo/all/test_package/conanfile.txt''
     = [''recipes'', ''foo'', ''all'', ''test_package'', ''conanfile.txt''] \<and>
   spec_is_test ''recipes/foo/all/test_package/conanfile.txt'' = Inr True \<and>
   is_test ''recipes/foo/all/test_package/conanfile.txt'' = Inr False"
  by code_simp

text \<open>
  C7. The loop over the body goes through the statements in source order. It skips the
  non-qualifying statements \<open>pre\<close>, returns at the first qualifying assignment \<open>attr\<close>
  with the diagnostic that this statement alone decides (for any rendering and any
  function \<open>lower\<close>), and never looks at the statements \<open>post\<close> after it: the result
  is the one of scanning \<open>attr\<close> alone at its position.
\<close>

theorem scan_stops_at_first_name_literal:
  assumes "\<forall>s\<in>set pre. name_literal s = None" and "name_literal attr = Some c"
  shows "scan_body lower render t i (pre @ attr # post) st =
           Inr (Returned,
                st\<lparr>reported := reported st @
                     (if t then [test_has_name (i + length pre) attr]
                      else if lower (render c) \<noteq> render c then [bad_name (i + length pre) attr]
                      else [])\<rparr>) \<and>
         scan_body lower render t i (pre @ attr # post) st =
           scan_body lower render t (i + length pre) [attr] st"
proof -
  have a: "first_name_assignment i (pre @ attr # post) = Some (i + length pre, attr, c)"
    using assms by (rule first_name_assignment_skip)
  have b: "first_name_assignment (i + length pre) [attr] = Some (i + length pre, attr, c)"
    using assms(2) by simp
  show ?thesis
    unfolding scan_body_char a b by (simp add: diagnostics_def)
qed

theorem scan_stops_at_first_name_literal_witness:
  "scan_body latin1_lower repr False 0
     [assign_version 5, assign_name_call 6, assign_name (Str ''FooBar'') 7, assign_name (Str ''foo'') 8]
     (visit_of recipe_path [''ConanFile''] [])
   = Inr (Returned, (visit_of recipe_path [''ConanFile''] [])
            \<lparr>reported := [\<lparr>symbol = ''conan-bad-name'', node = BodyNode 2, line = Some 7\<rparr>]\<rparr>) \<and>
   scan_body latin1_lower repr False 0
     [assign_version 5, assign_name_call 6, assign_name (Str ''FooBar'') 7, assign_name (Str ''foo'') 8]
     (visit_of recipe_path [''ConanFile''] [])
   = scan_body latin1_lower repr False 2 [assign_name (Str ''FooBar'') 7] (visit_of recipe_path [''ConanFile''] [])"
proof -
  have n: "lineno (assign_name v l) = l" for v l by (simp add: assign_name_def)
  show ?thesis
    using scan_stops_at_first_name_literal [of "[assign_version 5, assign_name_call 6]"
        "assign_name (Str ''FooBar'') 7" "Str ''FooBar''" latin1_lower repr False 0 "[assign_name (Str ''foo'') 8]"
        "visit_of recipe_path [''ConanFile''] []"]
      lower_examples(1)
    by (auto simp add: bad_name_def n numeral_2_eq_2 simp del: repr.simps scan_body.simps)
qed



text \<open>
  C9. When \<open>conan-test-no-name\<close> is reported, it is reported on the qualifying
  assignment statement (the body statement at its position, not the class node) and
  with the line of that statement.
\<close>

theorem test_no_name_reported_on_statement:
  assumes "basenames (tree st) = [''ConanFile'']"
    and "is_test (root_file (tree st)) = Inr True"
    and "body (tree st) = pre @ attr # post"
    and "\<forall>s\<in>set pre. name_literal s = None"
    and "name_literal attr = Some c"
  shows "\<exists>st' m. visit_classdef lower render st = Inr ((), st') \<and>
           reported st' = reported st @ [m] \<and> symbol m = ''conan-test-no-name'' \<and>
           node m = BodyNode (length pre) \<and> node m \<noteq> ClassNode \<and>
           body (tree st) ! length pre = attr \<and>
           line m = Some (lineno attr) \<and> message_line (tree st) m = Inr (lineno attr)"
proof -
  let ?m = "test_has_name (length pre) attr"
  have "visit_classdef lower render st = Inr ((), st\<lparr>reported := reported st @ [?m]\<rparr>)"
    using visit_classdef_found [OF assms, where lower = lower and render = render] by (simp add: diagnostics_def)
  moreover have "reported (st\<lparr>reported := reported st @ [?m]\<rparr>) = reported st @ [?m]"
    by simp
  moreover have "symbol ?m = ''conan-test-no-name'' \<and> node ?m = BodyNode (length pre) \<and>
      node ?m \<noteq> ClassNode \<and> line ?m = Some (lineno attr) \<and>
      message_line (tree st) ?m = Inr (lineno attr)"
    by (simp add: test_has_name_def message_line_def)
  moreover have "body (tree st) ! length pre = attr"
    using assms(3) by simp
  ultimately show ?thesis by blast
qed

theorem test_no_name_reported_on_statement_witness:
  "\<exists>st' m.
     visit_classdef latin1_lower repr (visit_of test_path [''ConanFile''] [assign_version 5, assign_name (Str ''foo'') 6])
       = Inr ((), st') \<and>
     reported st' = [m] \<and> symbol m = ''conan-test-no-name'' \<and> node m = BodyNode 1 \<and>
     node m \<noteq> ClassNode \<and> line m = Some 6 \<and>
     message_line (tree (visit_of test_path [''ConanFile''] [assign_version 5, assign_name (Str ''foo'') 6])) m
       = Inr 6 \<and>
     fromlineno (tree (visit_of test_path [''ConanFile''] [assign_version 5, assign_name (Str ''foo'') 6])) = 4"
proof -
  have n: "lineno (assign_name v l) = l" for v l by (simp add: assign_name_def)
  show ?thesis
    using test_no_name_reported_on_statement [of
        "visit_of test_path [''ConanFile''] [assign_version 5, assign_name (Str ''foo'') 6]"
        "[assign_version 5]" "assign_name (Str ''foo'') 6" "[]" "Str ''foo''" latin1_lower repr]
    by (simp add: is_test_test_path n)
qed

text \<open>
  C10. In the \<open>tk\<close> recipe the class binds \<open>_get_configure_dir\<close> and binds neither
  \<open>_get_configure_folder\<close> nor \<open>_source_subfolder\<close>. When the framework gives the
  object neither of these two attributes, then for every configuration and every
  behaviour of the external calls: \<open>build\<close> fails after the one external call that
  applies the patches, with the \<open>AttributeError\<close> on \<open>_get_configure_folder\<close> when the
  patches applied (and with the failure of the patches otherwise), and adds no call of
  a build tool to the log; \<open>package\<close> fails with an \<open>AttributeError\<close> before any
  external call.
\<close>

theorem tk_build_and_package_always_fail:
  assumes "\<not> inherited w ''_get_configure_folder''" and "\<not> inherited w ''_source_subfolder''"
  shows "''_get_configure_folder'' \<notin> set TkConan_attributes \<and>
         ''_get_configure_dir'' \<in> set TkConan_attributes \<and>
         ''_source_subfolder'' \<notin> set TkConan_attributes \<and>
         build w self log =
           (case extern w ''apply_conandata_patches'' [] of
              Inl e \<Rightarrow> Inl e
            | Inr r \<Rightarrow> Inl (AttributeError ''_get_configure_folder''),
            log @ [(''apply_conandata_patches'', [])]) \<and>
         (\<exists>e. fst (build w self log) = Inl e) \<and>
         invokes_build_tool (snd (build w self log)) = invokes_build_tool log \<and>
         package w self log =
           (Inl (AttributeError (if inherited w ''copy'' then ''_source_subfolder'' else ''copy'')),
            log)"
proof -
  have b: "build w self log =
           (case extern w ''apply_conandata_patches'' [] of
              Inl e \<Rightarrow> Inl e
            | Inr r \<Rightarrow> Inl (AttributeError ''_get_configure_folder''),
            log @ [(''apply_conandata_patches'', [])])"
    using assms(1) by (rule build_raises)
  have f: "\<exists>e. fst (build w self log) = Inl e"
    unfolding b by (simp split: sum.splits)
  have t: "invokes_build_tool (snd (build w self log)) = invokes_build_tool log"
    unfolding b by (simp add: invokes_build_tool_def build_tools_def)
  have p: "package w self log =
           (Inl (AttributeError (if inherited w ''copy'' then ''_source_subfolder'' else ''copy'')),
            log)"
    using assms(2) by (rule package_raises)
  from b f t p unbound_names show ?thesis by blast
qed

theorem tk_build_and_package_always_fail_witness:
  "\<not> inherited quiet_world ''_get_configure_folder'' \<and>
   \<not> inherited quiet_world ''_source_subfolder'' \<and>
   build quiet_world tk_on_linux [] =
     (Inl (AttributeError ''_get_configure_folder''), [(''apply_conandata_patches'', [])]) \<and>
   build quiet_world tk_on_msvc [] =
     (Inl (AttributeError ''_get_configure_folder''), [(''apply_conandata_patches'', [])]) \<and>
   build failing_patch_world tk_on_linux [] =
     (Inl (ConanException ''patch failed''), [(''apply_conandata_patches'', [])]) \<and>
   \<not> invokes_build_tool (snd (build quiet_world tk_on_linux [])) \<and>
   package quiet_world tk_on_linux [] = (Inl (AttributeError ''_source_subfolder''), []) \<and>
   package quiet_world tk_on_msvc [] = (Inl (AttributeError ''_source_subfolder''), [])"
proof -
  have q: "\<not> inherited quiet_world ''_get_configure_folder''"
    "\<not> inherited quiet_world ''_source_subfolder''"
    "inherited quiet_world ''copy''"
    "extern quiet_world ''apply_conandata_patches'' [] = Inr []"
    by (simp_all add: quiet_world_def framework_attributes_def)
  have r: "\<not> inherited failing_patch_world ''_get_configure_folder''"
    "\<not> inherited failing_patch_world ''_source_subfolder''"
    "extern failing_patch_world ''apply_conandata_patches'' [] = Inl (ConanException ''patch failed'')"
    by (simp_all add: failing_patch_world_def quiet_world_def framework_attributes_def)
  have e: "\<not> invokes_build_tool []" by (simp add: invokes_build_tool_def)
  show ?thesis
    using tk_build_and_package_always_fail [OF q(1,2), of tk_on_linux "[]"]
      tk_build_and_package_always_fail [OF q(1,2), of tk_on_msvc "[]"]
      tk_build_and_package_always_fail [OF r(1,2), of tk_on_linux "[]"]
    by (auto simp add: q r e)
qed

end
